theory Spec2Isabelle
  imports Complex_Main
begin

section \<open>JavaScript numbers\<close>

text \<open>
  A JavaScript number is a double. The finite ones are modelled as reals (rounding and
  overflow are idealised away, and the two zeros are one); the three special values
  are kept, because the division of the feature extractor produces them when the
  divisor is zero and \<open>Math.min\<close> treats them in its own way.
\<close>

datatype jsnum = Num real | PosInf | NegInf | NaN

fun js_neg :: "jsnum \<Rightarrow> jsnum" where
  "js_neg (Num a) = Num (- a)"
| "js_neg PosInf = NegInf"
| "js_neg NegInf = PosInf"
| "js_neg NaN = NaN"

fun js_add :: "jsnum \<Rightarrow> jsnum \<Rightarrow> jsnum" where
  "js_add (Num a) (Num b) = Num (a + b)"
| "js_add NaN _ = NaN"
| "js_add _ NaN = NaN"
| "js_add PosInf NegInf = NaN"
| "js_add NegInf PosInf = NaN"
| "js_add PosInf _ = PosInf"
| "js_add NegInf _ = NegInf"
| "js_add _ PosInf = PosInf"
| "js_add _ NegInf = NegInf"

definition js_sub :: "jsnum \<Rightarrow> jsnum \<Rightarrow> jsnum" where
  "js_sub a b = js_add a (js_neg b)"

fun js_sign_inf :: "real \<Rightarrow> jsnum \<Rightarrow> jsnum" where
  "js_sign_inf a v = (if a = 0 then NaN else if 0 < a then v else js_neg v)"

fun js_mul :: "jsnum \<Rightarrow> jsnum \<Rightarrow> jsnum" where
  "js_mul (Num a) (Num b) = Num (a * b)"
| "js_mul NaN _ = NaN"
| "js_mul _ NaN = NaN"
| "js_mul (Num a) PosInf = js_sign_inf a PosInf"
| "js_mul (Num a) NegInf = js_sign_inf a NegInf"
| "js_mul PosInf (Num b) = js_sign_inf b PosInf"
| "js_mul NegInf (Num b) = js_sign_inf b NegInf"
| "js_mul PosInf PosInf = PosInf"
| "js_mul PosInf NegInf = NegInf"
| "js_mul NegInf PosInf = NegInf"
| "js_mul NegInf NegInf = PosInf"

text \<open>
  Division. A finite dividend over zero gives an infinity of the dividend's sign, and
  \<open>0 / 0\<close> is \<open>NaN\<close>; nothing is raised.
\<close>

fun js_div :: "jsnum \<Rightarrow> jsnum \<Rightarrow> jsnum" where
  "js_div (Num a) (Num b) =
     (if b = 0 then (if a = 0 then NaN else if 0 < a then PosInf else NegInf)
      else Num (a / b))"
| "js_div NaN _ = NaN"
| "js_div _ NaN = NaN"
| "js_div (Num a) _ = Num 0"
| "js_div PosInf (Num b) = (if 0 \<le> b then PosInf else NegInf)"
| "js_div NegInf (Num b) = (if 0 \<le> b then NegInf else PosInf)"
| "js_div _ _ = NaN"

fun js_relu :: "jsnum \<Rightarrow> jsnum" where
  "js_relu (Num a) = Num (max 0 a)"
| "js_relu PosInf = PosInf"
| "js_relu NegInf = Num 0"
| "js_relu NaN = NaN"

fun js_sum :: "jsnum list \<Rightarrow> jsnum" where
  "js_sum [] = Num 0"
| "js_sum (x # xs) = js_add x (js_sum xs)"

text \<open>\<open>Math.min\<close>: \<open>NaN\<close> if either argument is \<open>NaN\<close>.\<close>

fun js_min :: "jsnum \<Rightarrow> jsnum \<Rightarrow> jsnum" where
  "js_min NaN _ = NaN"
| "js_min _ NaN = NaN"
| "js_min NegInf _ = NegInf"
| "js_min _ NegInf = NegInf"
| "js_min PosInf b = b"
| "js_min a PosInf = a"
| "js_min (Num a) (Num b) = Num (min a b)"



section \<open>FeatureExtractor\<close>

text \<open>
  The keyboard event carries \<open>keyCode\<close> and \<open>which\<close>; either may be missing
  (\<open>None\<close> is \<open>undefined\<close>). \<open>Date.now()\<close> is an explicit argument.
\<close>

record key_event =
  keyCode :: "real option"
  which :: "real option"

record features =
  prevKey :: real
  nextKey :: real
  timeInterval :: real

record stats =
  st_maxKeyCode :: real
  st_maxTimeInterval :: real

record extractor =
  lastKey :: "real option"
  lastKeyTime :: "real option"
  maxTimeInterval :: real
  maxKeyCode :: real

definition FeatureExtractor_new :: extractor where
  "FeatureExtractor_new =
     \<lparr>lastKey = None, lastKeyTime = None, maxTimeInterval = 1000, maxKeyCode = 255\<rparr>"

text \<open>\<open>event.keyCode || event.which || 0\<close>: a missing or zero field is falsy.\<close>

definition currentKey :: "key_event \<Rightarrow> real" where
  "currentKey ev =
     (case keyCode ev of
        Some k \<Rightarrow> if k \<noteq> 0 then k
                  else (case which ev of Some w \<Rightarrow> w | None \<Rightarrow> 0)
      | None \<Rightarrow> (case which ev of Some w \<Rightarrow> w | None \<Rightarrow> 0))"

definition extractFeatures :: "key_event \<Rightarrow> real \<Rightarrow> extractor \<Rightarrow> features option \<times> extractor" where
  "extractFeatures ev now fx =
     (case (lastKey fx, lastKeyTime fx) of
        (Some lk, Some lt) \<Rightarrow>
          (let ti = now - lt;
               fx1 = (if ti > maxTimeInterval fx then fx\<lparr>maxTimeInterval := ti\<rparr> else fx)
           in (Some \<lparr>prevKey = lk, nextKey = currentKey ev, timeInterval = ti\<rparr>,
               fx1\<lparr>lastKey := Some (currentKey ev), lastKeyTime := Some now\<rparr>))
      | _ \<Rightarrow> (None, fx\<lparr>lastKey := Some (currentKey ev), lastKeyTime := Some now\<rparr>))"

definition normalizeFeatures :: "extractor \<Rightarrow> features option \<Rightarrow> jsnum list option" where
  "normalizeFeatures fx fo =
     (case fo of
        None \<Rightarrow> None
      | Some f \<Rightarrow>
          Some [js_div (Num (prevKey f)) (Num (maxKeyCode fx)),
                js_div (Num (nextKey f)) (Num (maxKeyCode fx)),
                js_min (js_div (Num (timeInterval f)) (Num (maxTimeInterval fx))) (Num 1)])"

definition normalizeFeaturesWithStats :: "features option \<Rightarrow> stats option \<Rightarrow> jsnum list option" where
  "normalizeFeaturesWithStats fo so =
     (case (fo, so) of
        (Some f, Some s) \<Rightarrow>
          Some [js_div (Num (prevKey f)) (Num (st_maxKeyCode s)),
                js_div (Num (nextKey f)) (Num (st_maxKeyCode s)),
                js_min (js_div (Num (timeInterval f)) (Num (st_maxTimeInterval s))) (Num 1)]
      | _ \<Rightarrow> None)"

definition getStats :: "extractor \<Rightarrow> stats" where
  "getStats fx = \<lparr>st_maxKeyCode = maxKeyCode fx, st_maxTimeInterval = maxTimeInterval fx\<rparr>"

text \<open>\<open>stats.maxKeyCode || 255\<close>: the number zero is falsy.\<close>

definition setStats :: "stats option \<Rightarrow> extractor \<Rightarrow> extractor" where
  "setStats so fx =
     (case so of
        None \<Rightarrow> fx
      | Some s \<Rightarrow>
          fx\<lparr>maxKeyCode := (if st_maxKeyCode s \<noteq> 0 then st_maxKeyCode s else 255),
             maxTimeInterval := (if st_maxTimeInterval s \<noteq> 0 then st_maxTimeInterval s else 1000)\<rparr>)"

definition fx_reset :: "extractor \<Rightarrow> extractor" where
  "fx_reset fx = fx\<lparr>lastKey := None, lastKeyTime := None, maxTimeInterval := 1000\<rparr>"

section \<open>JSON values and localStorage\<close>

text \<open>
  The values that cross the persistence boundary are JSON values. A property that is
  missing reads as \<open>undefined\<close>, which is \<open>None\<close> wherever a value is optional.
\<close>

datatype json =
    JNull
  | JBool bool
  | JNum real
  | JStr string
  | JArr "json list"
  | JObj "(string \<times> json) list"

text \<open>JavaScript truthiness of a JSON value.\<close>

fun truthy :: "json \<Rightarrow> bool" where
  "truthy JNull = False"
| "truthy (JBool b) = b"
| "truthy (JNum r) = (r \<noteq> 0)"
| "truthy (JStr s) = (s \<noteq> [])"
| "truthy (JArr _) = True"
| "truthy (JObj _) = True"

datatype exn =
    SyntaxError
  | TypeError
  | QuotaExceededError
  | SecurityError
  | OtherError string

text \<open>
  Reading a named property (the names the program reads are none of the built-in
  properties of strings and arrays): on \<open>null\<close> it raises a TypeError, on an object
  it looks the name up, on every other value it is \<open>undefined\<close>.
\<close>

fun getProp :: "json \<Rightarrow> string \<Rightarrow> exn + json option" where
  "getProp JNull k = Inl TypeError"
| "getProp (JObj kvs) k = Inr (map_of kvs k)"
| "getProp _ k = Inr None"

text \<open>
  The stored strings. \<open>JSON.stringify\<close> and \<open>JSON.parse\<close> belong to the
  platform: the string that \<open>JSON.stringify\<close> writes for a value is represented by
  the value it denotes (\<open>Serialized\<close>), and \<open>JSON.parse\<close> reads it back; every
  other string (\<open>Malformed\<close>, the empty string among them) makes \<open>JSON.parse\<close>
  raise a SyntaxError.
\<close>

datatype stored = Serialized json | Malformed string

definition JSON_stringify :: "json \<Rightarrow> stored" where
  "JSON_stringify j = Serialized j"

fun JSON_parse :: "stored \<Rightarrow> exn + json" where
  "JSON_parse (Serialized j) = Inr j"
| "JSON_parse (Malformed s) = Inl SyntaxError"

text \<open>
  \<open>localStorage\<close>: the stored items, whether access to the storage is denied (then
  every call raises a SecurityError), and what the next calls of \<open>setItem\<close> will do
  (\<open>None\<close>: the item is stored; \<open>Some e\<close>: the call raises \<open>e\<close> and stores
  nothing; when the list is used up every call stores). The list is the
  environment's choice: whether a write fits the quota is not decided by the program.
  \<open>writes\<close> records every attempted \<open>setItem\<close> and \<open>removeItem\<close>, in order.
\<close>

datatype storage_call = SetItem string stored | RemoveItem string

record localStorage =
  items :: "string \<Rightarrow> stored option"
  denied :: bool
  script :: "exn option list"
  writes :: "storage_call list"

definition getItem :: "string \<Rightarrow> localStorage \<Rightarrow> exn + stored option" where
  "getItem k ls = (if denied ls then Inl SecurityError else Inr (items ls k))"

text \<open>What the next call of \<open>setItem\<close> does: \<open>None\<close> when it stores the item.\<close>

definition next_outcome :: "localStorage \<Rightarrow> exn option" where
  "next_outcome ls =
     (if denied ls then Some SecurityError
      else (case script ls of [] \<Rightarrow> None | r # rest \<Rightarrow> r))"

definition setItem :: "string \<Rightarrow> stored \<Rightarrow> localStorage \<Rightarrow> exn option \<times> localStorage" where
  "setItem k v ls =
     (let r = next_outcome ls
      in (r, ls\<lparr>items := (if r = None then (items ls)(k \<mapsto> v) else items ls),
              script := (if denied ls then script ls else tl (script ls)),
              writes := writes ls @ [SetItem k v]\<rparr>))"

definition removeItem :: "string \<Rightarrow> localStorage \<Rightarrow> exn option \<times> localStorage" where
  "removeItem k ls =
     (let ls1 = ls\<lparr>writes := writes ls @ [RemoveItem k]\<rparr>
      in if denied ls then (Some SecurityError, ls1)
         else (None, ls1\<lparr>items := (items ls)(k := None)\<rparr>))"

section \<open>StorageManager\<close>

definition storageKey :: string where
  "storageKey = ''typingBehaviorModel''"

text \<open>The object that \<open>saveModel\<close> serializes, with \<open>Date.now()\<close> as \<open>t\<close>.\<close>

definition dataToSave :: "real \<Rightarrow> json \<Rightarrow> json" where
  "dataToSave t modelState =
     JObj [(''modelState'', modelState), (''timestamp'', JNum t), (''version'', JStr ''1.0'')]"

definition clearModel :: "localStorage \<Rightarrow> bool \<times> localStorage" where
  "clearModel ls =
     (case removeItem storageKey ls of
        (None, ls1) \<Rightarrow> (True, ls1)
      | (Some e, ls1) \<Rightarrow> (False, ls1))"

text \<open>
  \<open>saveModel\<close>. The pair \<open>ts\<close> holds the two readings of \<open>Date.now()\<close>, of
  the first attempt and of the retry. The result is \<open>Inr b\<close> when the method returns
  \<open>b\<close>, and would be \<open>Inl e\<close> if it raised \<open>e\<close>.
\<close>

definition saveModel :: "real \<times> real \<Rightarrow> json option \<Rightarrow> localStorage \<Rightarrow> (exn + bool) \<times> localStorage" where
  "saveModel ts mso ls =
     (case mso of
        None \<Rightarrow> (Inr False, ls)
      | Some modelState \<Rightarrow>
          if \<not> truthy modelState then (Inr False, ls)
          else
            (case setItem storageKey (JSON_stringify (dataToSave (fst ts) modelState)) ls of
               (None, ls1) \<Rightarrow> (Inr True, ls1)
             | (Some e, ls1) \<Rightarrow>
                 if e = QuotaExceededError then
                   (let ls2 = snd (clearModel ls1)
                    in case setItem storageKey (JSON_stringify (dataToSave (snd ts) modelState)) ls2 of
                         (None, ls3) \<Rightarrow> (Inr True, ls3)
                       | (Some e', ls3) \<Rightarrow> (Inr False, ls3))
                 else (Inr False, ls1)))"

text \<open>
  \<open>loadModel\<close>: the body of the \<open>try\<close> first, then the method with its
  \<open>catch\<close>. \<open>None\<close> is the \<open>null\<close> the method returns.
\<close>

definition loadModel_try :: "localStorage \<Rightarrow> exn + json option" where
  "loadModel_try ls =
     (case getItem storageKey ls of
        Inl e \<Rightarrow> Inl e
      | Inr None \<Rightarrow> Inr None
      | Inr (Some savedData) \<Rightarrow>
          if savedData = Malformed [] then Inr None
          else
            (case JSON_parse savedData of
               Inl e \<Rightarrow> Inl e
             | Inr parsed \<Rightarrow>
                 (case getProp parsed ''modelState'' of
                    Inl e \<Rightarrow> Inl e
                  | Inr None \<Rightarrow> Inr None
                  | Inr (Some ms) \<Rightarrow> Inr (if truthy ms then Some ms else None))))"

definition loadModel :: "localStorage \<Rightarrow> exn + json option" where
  "loadModel ls = (case loadModel_try ls of Inl e \<Rightarrow> Inr None | Inr r \<Rightarrow> Inr r)"

text \<open>\<open>modelExists\<close> has no \<open>try\<close>: a denied storage makes it raise.\<close>

definition modelExists :: "localStorage \<Rightarrow> exn + bool" where
  "modelExists ls =
     (case getItem storageKey ls of Inl e \<Rightarrow> Inl e | Inr r \<Rightarrow> Inr (r \<noteq> None))"

definition getMetadata :: "localStorage \<Rightarrow> json option" where
  "getMetadata ls =
     (case getItem storageKey ls of
        Inl e \<Rightarrow> None
      | Inr None \<Rightarrow> None
      | Inr (Some savedData) \<Rightarrow>
          if savedData = Malformed [] then None
          else
            (case JSON_parse savedData of
               Inl e \<Rightarrow> None
             | Inr parsed \<Rightarrow>
                 (case (getProp parsed ''timestamp'', getProp parsed ''version'') of
                    (Inr t, Inr v) \<Rightarrow>
                      Some (JObj ((case t of None \<Rightarrow> [] | Some x \<Rightarrow> [(''timestamp'', x)]) @
                                  (case v of None \<Rightarrow> [] | Some x \<Rightarrow> [(''version'', x)])))
                  | _ \<Rightarrow> None)))"

section \<open>ModelManager\<close>

text \<open>
  \<open>createModel\<close> fixes the network: four dense layers, 3 to 2 to 1 to 2 to 3 units,
  rectified-linear activations but for the last layer. The weights of a layer are its
  kernel (one row per input unit) and its bias.
\<close>

datatype activation = Relu | Linear

type_synonym layer_weights = "real list list \<times> real list"
type_synonym weights = "layer_weights list"

definition architecture :: "(nat \<times> nat \<times> activation) list" where
  "architecture = [(3, 2, Relu), (2, 1, Relu), (1, 2, Relu), (2, 3, Linear)]"

definition layer_shaped :: "nat \<times> nat \<times> activation \<Rightarrow> layer_weights \<Rightarrow> bool" where
  "layer_shaped spec w =
     (length (fst w) = fst spec \<and> list_all (\<lambda>row. length row = fst (snd spec)) (fst w) \<and>
      length (snd w) = fst (snd spec))"

definition well_shaped :: "weights \<Rightarrow> bool" where
  "well_shaped ws = list_all2 layer_shaped architecture ws"

text \<open>
  What the numeric library contributes and the program does not decide: the weights a
  newly created model starts from, and \<open>model.fit\<close>, which updates the weights in
  place from the samples and the batch size and may raise: its result is the exception,
  if any, and the weights the model is left with.
\<close>

record tfjs =
  initial :: weights
  fit :: "weights \<Rightarrow> jsnum list list \<Rightarrow> nat \<Rightarrow> exn option \<times> weights"

record manager =
  model :: "weights option"
  isTraining :: bool
  trainingData :: "jsnum list list"
  featureStats :: "json option"

definition ModelManager_new :: manager where
  "ModelManager_new =
     \<lparr>model = None, isTraining = False, trainingData = [], featureStats = Some JNull\<rparr>"

definition createModel :: "tfjs \<Rightarrow> manager \<Rightarrow> manager" where
  "createModel tf mm = mm\<lparr>model := Some (initial tf)\<rparr>"

definition stats_json :: "stats \<Rightarrow> json" where
  "stats_json s =
     JObj [(''maxKeyCode'', JNum (st_maxKeyCode s)),
           (''maxTimeInterval'', JNum (st_maxTimeInterval s))]"

definition addTrainingSample :: "jsnum list option \<Rightarrow> stats \<Rightarrow> manager \<Rightarrow> manager" where
  "addTrainingSample nfo st mm =
     (case nfo of
        Some nf \<Rightarrow>
          if length nf = 3
          then mm\<lparr>trainingData := trainingData mm @ [nf], featureStats := Some (stats_json st)\<rparr>
          else mm
      | None \<Rightarrow> mm)"

definition train :: "tfjs \<Rightarrow> nat \<Rightarrow> manager \<Rightarrow> manager" where
  "train tf batchSize mm =
     (if length (trainingData mm) < batchSize then mm
      else if isTraining mm then mm
      else
        (let mm1 = (if model mm = None then createModel tf mm else mm);
             mm2 = mm1\<lparr>isTraining := True\<rparr>;
             mm3 = (case model mm2 of
                      None \<Rightarrow> mm2
                    | Some ws \<Rightarrow>
                        mm2\<lparr>model :=
                              Some (snd (fit tf ws (trainingData mm2)
                                           (min batchSize (length (trainingData mm2)))))\<rparr>)
         in mm3\<lparr>isTraining := False\<rparr>))"

text \<open>The forward pass of \<open>model.predict\<close> on one input row.\<close>

fun activate :: "activation \<Rightarrow> jsnum \<Rightarrow> jsnum" where
  "activate Relu x = js_relu x"
| "activate Linear x = x"

fun dot :: "jsnum list \<Rightarrow> real list \<Rightarrow> jsnum" where
  "dot (x # xs) (k # ks) = js_add (js_mul x (Num k)) (dot xs ks)"
| "dot _ _ = Num 0"

definition dense :: "activation \<Rightarrow> layer_weights \<Rightarrow> jsnum list \<Rightarrow> jsnum list" where
  "dense a w x =
     map2 (\<lambda>col b. activate a (js_add (dot x col) (Num b))) (transpose (fst w)) (snd w)"

fun forward :: "activation list \<Rightarrow> weights \<Rightarrow> jsnum list \<Rightarrow> jsnum list" where
  "forward (a # as) (w # ws) x = forward as ws (dense a w x)"
| "forward _ _ x = x"

definition model_predict :: "weights \<Rightarrow> jsnum list \<Rightarrow> jsnum list" where
  "model_predict ws x = forward (map (\<lambda>spec. snd (snd spec)) architecture) ws x"

text \<open>\<open>tf.losses.meanSquaredError\<close>: the mean of the squared differences.\<close>

definition meanSquaredError :: "jsnum list \<Rightarrow> jsnum list \<Rightarrow> jsnum" where
  "meanSquaredError a b =
     js_div (js_sum (map2 (\<lambda>x y. js_mul (js_sub x y) (js_sub x y)) a b))
            (Num (real (length a)))"

text \<open>
  \<open>predict\<close>. On numbers and on weights of the network's shapes nothing in the
  \<open>try\<close> block raises, so its \<open>catch\<close> has no branch here.
\<close>

definition predict :: "manager \<Rightarrow> jsnum list option \<Rightarrow> jsnum" where
  "predict mm nfo =
     (case (model mm, nfo) of
        (Some ws, Some nf) \<Rightarrow>
          if length nf \<noteq> 3 then Num (1 / 2)
          else js_min (js_mul (meanSquaredError nf (model_predict ws nf)) (Num 10)) (Num 1)
      | _ \<Rightarrow> Num (1 / 2))"

text \<open>\<open>getWeights\<close> followed by \<open>array()\<close>: kernel and bias of each layer, in order.\<close>

definition weights_json :: "weights \<Rightarrow> json list" where
  "weights_json ws =
     concat (map (\<lambda>w. [JArr (map (\<lambda>row. JArr (map JNum row)) (fst w)), JArr (map JNum (snd w))]) ws)"

text \<open>
  \<open>getModelState\<close>. A \<open>featureStats\<close> that is \<open>undefined\<close> leaves the property
  out of the object (reading it gives \<open>undefined\<close> either way).
\<close>

definition getModelState :: "manager \<Rightarrow> json option" where
  "getModelState mm =
     (case model mm of
        None \<Rightarrow> None
      | Some ws \<Rightarrow>
          Some (JObj ([(''weights'', JArr (weights_json ws))] @
                      (case featureStats mm of None \<Rightarrow> [] | Some s \<Rightarrow> [(''featureStats'', s)]) @
                      [(''trainingDataLength'', JNum (real (length (trainingData mm))))])))"

text \<open>
  \<open>tf.tensor\<close> and \<open>setWeights\<close>: the stored arrays become the weights when there
  are exactly two per layer, of numbers only and of the shapes of the layer. A wrong
  count or shape raises inside the \<open>try\<close> of \<open>loadModelState\<close>; arrays that
  are ragged or hold other values than numbers are taken to raise as well.
\<close>

fun as_number :: "json \<Rightarrow> real option" where
  "as_number (JNum r) = Some r"
| "as_number _ = None"

fun those_list :: "'a option list \<Rightarrow> 'a list option" where
  "those_list [] = Some []"
| "those_list (None # xs) = None"
| "those_list (Some x # xs) = (case those_list xs of None \<Rightarrow> None | Some ys \<Rightarrow> Some (x # ys))"

fun as_vector :: "nat \<Rightarrow> json \<Rightarrow> real list option" where
  "as_vector n (JArr xs) = (if length xs = n then those_list (map as_number xs) else None)"
| "as_vector n _ = None"

fun as_matrix :: "nat \<Rightarrow> nat \<Rightarrow> json \<Rightarrow> real list list option" where
  "as_matrix m n (JArr rows) =
     (if length rows = m then those_list (map (as_vector n) rows) else None)"
| "as_matrix m n _ = None"

fun setWeights :: "(nat \<times> nat \<times> activation) list \<Rightarrow> json list \<Rightarrow> weights option" where
  "setWeights [] [] = Some []"
| "setWeights (spec # specs) (k # b # js) =
     (case (as_matrix (fst spec) (fst (snd spec)) k, as_vector (fst (snd spec)) b,
            setWeights specs js) of
        (Some km, Some bv, Some rest) \<Rightarrow> Some ((km, bv) # rest)
      | _ \<Rightarrow> None)"
| "setWeights _ _ = None"

text \<open>
  \<open>loadModelState\<close>. The model is created before the stored weights are read, so a
  failure inside the \<open>try\<close> leaves a newly created model behind. Reading a property
  of a truthy value never raises, so the \<open>Inl\<close> branches are never taken.
\<close>

definition loadModelState :: "tfjs \<Rightarrow> json option \<Rightarrow> manager \<Rightarrow> bool \<times> manager" where
  "loadModelState tf mso mm =
     (case mso of
        None \<Rightarrow> (False, mm)
      | Some modelState \<Rightarrow>
          if \<not> truthy modelState then (False, mm)
          else
            (case getProp modelState ''weights'' of
               Inl e \<Rightarrow> (False, mm)
             | Inr None \<Rightarrow> (False, mm)
             | Inr (Some w) \<Rightarrow>
                 if \<not> truthy w then (False, mm)
                 else
                   (let mm1 = createModel tf mm
                    in case w of
                         JArr js \<Rightarrow>
                           (case setWeights architecture js of
                              None \<Rightarrow> (False, mm1)
                            | Some ws \<Rightarrow>
                                (case getProp modelState ''featureStats'' of
                                   Inl e \<Rightarrow> (False, mm1\<lparr>model := Some ws\<rparr>)
                                 | Inr fs \<Rightarrow> (True, mm1\<lparr>model := Some ws, featureStats := fs\<rparr>)))
                       | _ \<Rightarrow> (False, mm1))))"

definition isReady :: "manager \<Rightarrow> bool" where
  "isReady mm = (model mm \<noteq> None \<and> 10 \<le> length (trainingData mm))"

definition mm_reset :: "manager \<Rightarrow> manager" where
  "mm_reset mm =
     mm\<lparr>model := None, trainingData := [], featureStats := Some JNull, isTraining := False\<rparr>"

section \<open>The controller: useTypingBehavior\<close>

text \<open>
  The state of the hook: the four React state variables, the three service objects, the
  timer reference, the two other references, and the storage the services write to.
  \<open>calls\<close> records, in order, each call of \<open>modelManager.train\<close> and of
  \<open>storageManager.saveModel\<close> that the hook makes.

  The timer reference holds the interval's id: \<open>Ticking\<close> while the interval runs,
  \<open>Cleared\<close> once \<open>clearInterval\<close> stopped it (the id stays in the reference),
  \<open>NoTimer\<close> when the reference is \<open>null\<close>.

  Every asynchronous call is modelled as running to its end before the next event is
  handled. The effect that loads a stored model when the component is mounted is not
  modelled: the first render over an empty storage stands for a controller whose
  start-up found no record.
\<close>

datatype phase = Idle | Training | Predicting

datatype timer = NoTimer | Ticking | Cleared

datatype hook_call = TrainCalled nat | SaveCalled json

record hook =
  phase :: phase
  timeRemaining :: int
  predictionScore :: "jsnum option"
  samplesCollected :: nat
  featureExtractor :: extractor
  modelManager :: manager
  storage :: localStorage
  timerRef :: timer
  trainingStartTime :: "real option"
  samplesSinceLastTraining :: nat
  calls :: "hook_call list"

definition TRAINING_DURATION :: real where
  "TRAINING_DURATION = 90 * 1000"

definition BATCH_TRAINING_SIZE :: nat where
  "BATCH_TRAINING_SIZE = 10"

definition empty_storage :: localStorage where
  "empty_storage = \<lparr>items = (\<lambda>k. None), denied = False, script = [], writes = []\<rparr>"

text \<open>The hook on its first render, over a given storage.\<close>

definition useTypingBehavior :: "localStorage \<Rightarrow> hook" where
  "useTypingBehavior ls =
     \<lparr>phase = Idle, timeRemaining = 90, predictionScore = None, samplesCollected = 0,
      featureExtractor = FeatureExtractor_new, modelManager = ModelManager_new,
      storage = ls, timerRef = NoTimer, trainingStartTime = None,
      samplesSinceLastTraining = 0, calls = []\<rparr>"

text \<open>The hook's call \<open>modelManager.train(BATCH_TRAINING_SIZE)\<close>.\<close>

definition trainStep :: "tfjs \<Rightarrow> hook \<Rightarrow> hook" where
  "trainStep tf h =
     h\<lparr>modelManager := train tf BATCH_TRAINING_SIZE (modelManager h),
       calls := calls h @ [TrainCalled BATCH_TRAINING_SIZE]\<rparr>"

text \<open>The hook's call \<open>storageManagerRef.current.saveModel(state)\<close>.\<close>

definition saveStep :: "real \<times> real \<Rightarrow> json \<Rightarrow> hook \<Rightarrow> hook" where
  "saveStep ts state h =
     h\<lparr>storage := snd (saveModel ts (Some state) (storage h)),
       calls := calls h @ [SaveCalled state]\<rparr>"

text \<open>
  The statistics that \<open>normalizeFeaturesWithStats\<close> receives in the prediction phase
  are the manager's \<open>featureStats\<close>: \<open>null\<close> and \<open>undefined\<close> are falsy; an object
  with the two numbers is the statistics record. (A stored value of another form can
  only come from a foreign record and is read as missing.)
\<close>

definition stats_view :: "json option \<Rightarrow> stats option" where
  "stats_view jo =
     (case jo of
        Some (JObj kvs) \<Rightarrow>
          (case (map_of kvs ''maxKeyCode'', map_of kvs ''maxTimeInterval'') of
             (Some (JNum a), Some (JNum b)) \<Rightarrow> Some \<lparr>st_maxKeyCode = a, st_maxTimeInterval = b\<rparr>
           | _ \<Rightarrow> None)
      | _ \<Rightarrow> None)"

text \<open>
  \<open>handleKeystroke\<close>. The callback reads \<open>phase\<close> from the render that created
  it: \<open>ph\<close> is that captured value, and \<open>setPhase\<close> changes the state, not
  \<open>ph\<close>. \<open>now\<close> is \<open>Date.now()\<close>.
\<close>

definition handleKeystroke :: "tfjs \<Rightarrow> phase \<Rightarrow> key_event \<Rightarrow> real \<Rightarrow> hook \<Rightarrow> hook" where
  "handleKeystroke tf ph ev now h =
     (case extractFeatures ev now (featureExtractor h) of
        (None, fx) \<Rightarrow> h\<lparr>featureExtractor := fx\<rparr>
      | (Some rawFeatures, fx) \<Rightarrow>
          (let h1 = h\<lparr>featureExtractor := fx\<rparr>;
               h2 = (if ph = Idle
                     then h1\<lparr>phase := Training, trainingStartTime := Some now, timerRef := Ticking\<rparr>
                     else h1)
           in if ph = Training then
                (case normalizeFeatures fx (Some rawFeatures) of
                   None \<Rightarrow> h2
                 | Some nf \<Rightarrow>
                     (let h3 = h2\<lparr>modelManager :=
                                     addTrainingSample (Some nf) (getStats fx) (modelManager h2),
                                   samplesCollected := samplesCollected h2 + 1,
                                   samplesSinceLastTraining := samplesSinceLastTraining h2 + 1\<rparr>
                      in if BATCH_TRAINING_SIZE \<le> samplesSinceLastTraining h3
                         then trainStep tf (h3\<lparr>samplesSinceLastTraining := 0\<rparr>)
                         else h3))
              else if ph = Predicting then
                (case normalizeFeaturesWithStats (Some rawFeatures)
                        (stats_view (featureStats (modelManager h2))) of
                   None \<Rightarrow> h2
                 | Some nf \<Rightarrow> h2\<lparr>predictionScore := Some (predict (modelManager h2) (Some nf))\<rparr>)
              else h2))"

text \<open>
  A key event that arrives after the component has rendered again: the callback in use
  captured the current phase.
\<close>

definition keystroke :: "tfjs \<Rightarrow> key_event \<Rightarrow> real \<Rightarrow> hook \<Rightarrow> hook" where
  "keystroke tf ev now h = handleKeystroke tf (phase h) ev now h"

fun keystrokes :: "tfjs \<Rightarrow> (key_event \<times> real) list \<Rightarrow> hook \<Rightarrow> hook" where
  "keystrokes tf [] h = h"
| "keystrokes tf (e # es) h = keystrokes tf es (keystroke tf (fst e) (snd e) h)"

text \<open>
  One firing of the interval callback at time \<open>now\<close>; a stopped interval does not
  fire. \<open>ts\<close> are the clock readings \<open>saveModel\<close> will take.
\<close>

definition timerTick :: "tfjs \<Rightarrow> real \<Rightarrow> real \<times> real \<Rightarrow> hook \<Rightarrow> hook" where
  "timerTick tf now ts h =
     (if timerRef h \<noteq> Ticking then h
      else
        (let elapsed = now - (case trainingStartTime h of Some t \<Rightarrow> t | None \<Rightarrow> 0);
             remaining = max 0 (TRAINING_DURATION - elapsed);
             h1 = h\<lparr>timeRemaining := \<lceil>remaining / 1000\<rceil>\<rparr>
         in if remaining \<le> 0 then
              (let h2 = h1\<lparr>timerRef := Cleared, phase := Predicting\<rparr>;
                   h3 = trainStep tf h2
               in case getModelState (modelManager h3) of
                    None \<Rightarrow> h3
                  | Some state \<Rightarrow> if truthy state then saveStep ts state h3 else h3)
            else h1))"

definition reset :: "hook \<Rightarrow> hook" where
  "reset h =
     h\<lparr>timerRef := NoTimer, phase := Idle, timeRemaining := 90, predictionScore := None,
       samplesCollected := 0, featureExtractor := fx_reset (featureExtractor h),
       modelManager := mm_reset (modelManager h), storage := snd (clearModel (storage h)),
       trainingStartTime := None, samplesSinceLastTraining := 0\<rparr>"

section \<open>Runs of the feature extractor\<close>

text \<open>
  The operations that change a feature extractor, and the extractor after a sequence
  of them, starting from the constructor. (The two normalizing methods only read it.)
\<close>

datatype fx_op = Extract key_event real | SetStats "stats option" | Reset

fun fx_apply :: "extractor \<Rightarrow> fx_op \<Rightarrow> extractor" where
  "fx_apply fx (Extract ev now) = snd (extractFeatures ev now fx)"
| "fx_apply fx (SetStats so) = setStats so fx"
| "fx_apply fx Reset = fx_reset fx"

definition fx_run :: "fx_op list \<Rightarrow> extractor" where
  "fx_run ops = foldl fx_apply FeatureExtractor_new ops"


text \<open>Adopted statistics whose key-code maximum is the ceiling, or is missing (zero).\<close>

fun adopts_ceiling :: "fx_op \<Rightarrow> bool" where
  "adopts_ceiling (SetStats (Some s)) = (st_maxKeyCode s = 255 \<or> st_maxKeyCode s = 0)"
| "adopts_ceiling _ = True"


section \<open>Runs of the controller\<close>

text \<open>
  The scenario of key events 50 ms apart: the controller after the first \<open>k\<close>
  events, where event \<open>i\<close> is \<open>ev i\<close> at time \<open>t0 + 50 * i\<close>. It starts
  from the first render over an empty storage, where the start-up load finds nothing.
\<close>

definition scenario :: "tfjs \<Rightarrow> (nat \<Rightarrow> key_event) \<Rightarrow> real \<Rightarrow> nat \<Rightarrow> hook" where
  "scenario tf ev t0 k =
     keystrokes tf (map (\<lambda>i. (ev i, t0 + 50 * real i)) [0..<k]) (useTypingBehavior empty_storage)"

text \<open>
  The controller in its training phase with \<open>n\<close> samples collected: the counters,
  the manager's samples and the recorded calls agree with \<open>n\<close>, a model exists from
  the tenth sample on, the extractor has seen a key, and the timer runs.
\<close>

definition collecting :: "nat \<Rightarrow> hook \<Rightarrow> bool" where
  "collecting n h =
     (phase h = Training \<and> samplesCollected h = n \<and>
      samplesSinceLastTraining h = n mod 10 \<and>
      length (trainingData (modelManager h)) = n \<and>
      \<not> isTraining (modelManager h) \<and>
      calls h = replicate (n div 10) (TrainCalled 10) \<and>
      (model (modelManager h) = None) = (n < 10) \<and>
      lastKey (featureExtractor h) \<noteq> None \<and> lastKeyTime (featureExtractor h) \<noteq> None \<and>
      timerRef h = Ticking)"

section \<open>Concrete data\<close>

text \<open>
  Data for the concrete instances below: weights of the network's shapes, a stand-in
  for the numeric library whose \<open>fit\<close> moves every bias by one tenth, key events
  with the distinct key codes 65, 66 and so on, and a storage whose next two writes
  exceed the quota.
\<close>

definition sample_weights :: weights where
  "sample_weights =
     [([[1, 0], [0, 1], [0, 0]], [0, 0]),
      ([[1], [1]], [0]),
      ([[1, 1]], [0, 0]),
      ([[1, 0, 0], [0, 1, 0]], [0, 0, 0])]"

definition sample_tf :: tfjs where
  "sample_tf =
     \<lparr>initial = sample_weights,
      fit = (\<lambda>ws samples batchSize.
               (None, map (\<lambda>w. (fst w, map (\<lambda>b. b + 1 / 10) (snd w))) ws))\<rparr>"

definition sample_key :: "nat \<Rightarrow> key_event" where
  "sample_key i = \<lparr>keyCode = Some (65 + real i), which = None\<rparr>"

definition full_storage :: localStorage where
  "full_storage = empty_storage\<lparr>script := [Some QuotaExceededError, Some QuotaExceededError]\<rparr>"

text \<open>The weights that a stored model state carries, when they fit the network.\<close>

definition stored_weights :: "json \<Rightarrow> weights option" where
  "stored_weights modelState =
     (case getProp modelState ''weights'' of
        Inr (Some (JArr js)) \<Rightarrow> setWeights architecture js
      | _ \<Rightarrow> None)"

text \<open>Adding a list of samples, one call of \<open>addTrainingSample\<close> each.\<close>

definition add_all :: "jsnum list list \<Rightarrow> stats \<Rightarrow> manager \<Rightarrow> manager" where
  "add_all vs st mm = foldl (\<lambda>m v. addTrainingSample (Some v) st m) mm vs"

text \<open>
  A manager after one completed training pass: ten samples added, then
  \<open>train\<close>.
\<close>

definition sample_vector :: "jsnum list" where
  "sample_vector = [Num (13 / 51), Num (22 / 85), Num (1 / 20)]"

definition sample_manager :: manager where
  "sample_manager =
     train sample_tf 10
       (add_all (replicate 10 sample_vector)
          \<lparr>st_maxKeyCode = 255, st_maxTimeInterval = 1000\<rparr> ModelManager_new)"

text \<open>The second outcome of the script: what a retried \<open>setItem\<close> does.\<close>

definition second_outcome :: "localStorage \<Rightarrow> exn option" where
  "second_outcome ls = (case tl (script ls) of [] \<Rightarrow> None | r # rest \<Rightarrow> r)"

section \<open>Properties of the feature extractor\<close>






lemma fx_apply_ceiling:
  "adopts_ceiling op \<Longrightarrow> maxKeyCode fx = 255 \<Longrightarrow> maxKeyCode (fx_apply fx op) = 255"
  by (cases op rule: adopts_ceiling.cases)
     (auto simp: extractFeatures_def setStats_def fx_reset_def Let_def split: option.splits)

lemma fx_foldl_ceiling:
  "list_all adopts_ceiling ops \<Longrightarrow> maxKeyCode fx = 255 \<Longrightarrow>
   maxKeyCode (foldl fx_apply fx ops) = 255"
  by (induction ops arbitrary: fx) (simp_all add: fx_apply_ceiling)

text \<open>
  Claim C7, as stated, fails: \<open>setStats\<close> overwrites \<open>maxKeyCode\<close>. On a new
  extractor, adopting statistics whose \<open>maxKeyCode\<close> is 100 changes it from 255 to 100.
\<close>

theorem maxKeyCode_counterexample:
  "maxKeyCode FeatureExtractor_new = 255 \<and>
   maxKeyCode (setStats (Some \<lparr>st_maxKeyCode = 100, st_maxTimeInterval = 1000\<rparr>)
                 FeatureExtractor_new) = 100"
  by (simp add: FeatureExtractor_new_def setStats_def)

text \<open>
  Claim C7, amended. \<open>maxKeyCode\<close> is initialized to 255; \<open>extractFeatures\<close> and
  \<open>reset\<close> never change it (the normalizing methods change nothing); \<open>setStats\<close>
  leaves it alone when given no statistics and otherwise overwrites it with the
  supplied \<open>maxKeyCode\<close>, or with 255 when that is zero. So it is 255 after every
  sequence of operations in which each adopted \<open>maxKeyCode\<close> is 255 or zero.
\<close>

theorem maxKeyCode_ceiling:
  "maxKeyCode FeatureExtractor_new = 255 \<and>
   maxKeyCode (snd (extractFeatures ev now fx)) = maxKeyCode fx \<and>
   maxKeyCode (fx_reset fx) = maxKeyCode fx \<and>
   maxKeyCode (setStats None fx) = maxKeyCode fx \<and>
   maxKeyCode (setStats (Some s) fx) = (if st_maxKeyCode s \<noteq> 0 then st_maxKeyCode s else 255) \<and>
   (list_all adopts_ceiling ops \<longrightarrow> maxKeyCode (fx_run ops) = 255)"
proof -
  have "maxKeyCode (snd (extractFeatures ev now fx)) = maxKeyCode fx"
    by (simp add: extractFeatures_def Let_def split: option.splits)
  moreover have "list_all adopts_ceiling ops \<longrightarrow> maxKeyCode (fx_run ops) = 255"
    unfolding fx_run_def by (simp add: fx_foldl_ceiling FeatureExtractor_new_def)
  ultimately show ?thesis
    by (simp add: FeatureExtractor_new_def fx_reset_def setStats_def)
qed

theorem maxKeyCode_ceiling_witness:
  "maxKeyCode (fx_run [Extract \<lparr>keyCode = Some 65, which = None\<rparr> 0,
                       Extract \<lparr>keyCode = Some 66, which = None\<rparr> 1500,
                       SetStats (Some \<lparr>st_maxKeyCode = 255, st_maxTimeInterval = 3000\<rparr>),
                       Reset]) = 255"
  using maxKeyCode_ceiling
    [of "\<lparr>keyCode = Some 65, which = None\<rparr>" 0 FeatureExtractor_new
        "\<lparr>st_maxKeyCode = 255, st_maxTimeInterval = 3000\<rparr>"
        "[Extract \<lparr>keyCode = Some 65, which = None\<rparr> 0,
          Extract \<lparr>keyCode = Some 66, which = None\<rparr> 1500,
          SetStats (Some \<lparr>st_maxKeyCode = 255, st_maxTimeInterval = 3000\<rparr>),
          Reset]"]
  by simp

section \<open>Properties of the StorageManager\<close>

text \<open>
  Claim C2, as stated, fails in its last part: \<open>loadModel\<close> never reads the version
  tag. A stored record of the foreign version 2.0 yields its model state.
\<close>

theorem loadModel_counterexample:
  "loadModel (empty_storage\<lparr>items := (\<lambda>k. None)(storageKey \<mapsto>
       Serialized (JObj [(''modelState'', JObj [(''weights'', JArr [])]),
                         (''timestamp'', JNum 0),
                         (''version'', JStr ''2.0'')]))\<rparr>)
   = Inr (Some (JObj [(''weights'', JArr [])]))"
  by (simp add: loadModel_def loadModel_try_def getItem_def empty_storage_def storageKey_def)

text \<open>
  Claim C2, amended. \<open>loadModel\<close> never raises. It returns \<open>null\<close> when the storage
  cannot be read or holds no record, and when the stored string does not deserialize.
  For a string that deserializes, the result is the \<open>modelState\<close> property of the
  parsed value when that is truthy, and \<open>null\<close> otherwise; the version tag plays no
  part, so a record with a truthy model state yields it whatever its version is.
\<close>

theorem loadModel_never_raises:
  "loadModel ls \<noteq> Inl e \<and>
   (denied ls \<or> items ls storageKey = None \<longrightarrow> loadModel ls = Inr None) \<and>
   (\<not> denied ls \<and> items ls storageKey = Some (Malformed s) \<longrightarrow> loadModel ls = Inr None) \<and>
   (\<not> denied ls \<and> items ls storageKey = Some (Serialized parsed) \<longrightarrow>
      loadModel ls =
        Inr (case getProp parsed ''modelState'' of
               Inr (Some ms) \<Rightarrow> if truthy ms then Some ms else None
             | _ \<Rightarrow> None)) \<and>
   (\<not> denied ls \<and> truthy ms \<and>
    items ls storageKey =
      Some (Serialized (JObj [(''modelState'', ms), (''timestamp'', t), (''version'', v)])) \<longrightarrow>
      loadModel ls = Inr (Some ms))"
  by (auto simp: loadModel_def loadModel_try_def getItem_def split: sum.splits option.splits)

text \<open>
  The theorem at two stored strings: one that is not JSON, and a record whose version
  tag is \<open>null\<close>.
\<close>

theorem loadModel_never_raises_witness:
  "loadModel (empty_storage\<lparr>items := (\<lambda>k. None)(storageKey \<mapsto> Malformed ''{oops'')\<rparr>) = Inr None \<and>
   loadModel (empty_storage\<lparr>items := (\<lambda>k. None)(storageKey \<mapsto>
       Serialized (JObj [(''modelState'', JObj [(''trainingDataLength'', JNum 12)]),
                         (''timestamp'', JNum 5),
                         (''version'', JNull)]))\<rparr>)
     = Inr (Some (JObj [(''trainingDataLength'', JNum 12)]))"
  using loadModel_never_raises
    [where ls = "empty_storage\<lparr>items := (\<lambda>k. None)(storageKey \<mapsto> Malformed ''{oops'')\<rparr>"
       and s = "''{oops''"]
    loadModel_never_raises
    [where ls = "empty_storage\<lparr>items := (\<lambda>k. None)(storageKey \<mapsto>
       Serialized (JObj [(''modelState'', JObj [(''trainingDataLength'', JNum 12)]),
                         (''timestamp'', JNum 5),
                         (''version'', JNull)]))\<rparr>"
       and ms = "JObj [(''trainingDataLength'', JNum 12)]" and t = "JNum 5" and v = JNull]
  by (simp add: empty_storage_def)

lemma saveModel_no_exn: "fst (saveModel ts mso ls) \<noteq> Inl e"
  by (simp add: saveModel_def Let_def split: option.splits prod.splits)

lemma saveModel_first:
  "truthy ms \<Longrightarrow> next_outcome ls = None \<Longrightarrow>
   fst (saveModel ts (Some ms) ls) = Inr True \<and>
   writes (snd (saveModel ts (Some ms) ls)) =
     writes ls @ [SetItem storageKey (JSON_stringify (dataToSave (fst ts) ms))] \<and>
   items (snd (saveModel ts (Some ms) ls)) storageKey =
     Some (JSON_stringify (dataToSave (fst ts) ms))"
  by (simp add: saveModel_def setItem_def Let_def)

lemma saveModel_other:
  "truthy ms \<Longrightarrow> next_outcome ls = Some e \<Longrightarrow> e \<noteq> QuotaExceededError \<Longrightarrow>
   fst (saveModel ts (Some ms) ls) = Inr False \<and>
   writes (snd (saveModel ts (Some ms) ls)) =
     writes ls @ [SetItem storageKey (JSON_stringify (dataToSave (fst ts) ms))] \<and>
   items (snd (saveModel ts (Some ms) ls)) = items ls"
  by (simp add: saveModel_def setItem_def Let_def)

lemma quota_not_denied: "next_outcome ls = Some QuotaExceededError \<Longrightarrow> \<not> denied ls"
  by (auto simp: next_outcome_def split: if_splits)

lemma saveModel_quota:
  assumes "truthy ms" and "next_outcome ls = Some QuotaExceededError"
  shows "fst (saveModel ts (Some ms) ls) = Inr (second_outcome ls = None) \<and>
   writes (snd (saveModel ts (Some ms) ls)) =
     writes ls @ [SetItem storageKey (JSON_stringify (dataToSave (fst ts) ms)),
                  RemoveItem storageKey,
                  SetItem storageKey (JSON_stringify (dataToSave (snd ts) ms))] \<and>
   items (snd (saveModel ts (Some ms) ls)) storageKey =
     (if second_outcome ls = None then Some (JSON_stringify (dataToSave (snd ts) ms)) else None)"
proof -
  from assms(2) have nd: "\<not> denied ls" by (rule quota_not_denied)
  show ?thesis
    using assms nd
    by (auto simp: saveModel_def setItem_def clearModel_def removeItem_def Let_def
        next_outcome_def second_outcome_def split: list.splits)
qed

text \<open>
  Claim C8. \<open>saveModel\<close> never raises. When the first write fails with
  QuotaExceededError, the attempted writes are exactly: the first \<open>setItem\<close>, the
  \<open>removeItem\<close> that clears the record, and one more \<open>setItem\<close>; the result is
  \<open>true\<close> exactly when that retry stores the record, and after a failed retry the
  record is gone. A first write that stores returns \<open>true\<close> after that single
  write; any other failure returns \<open>false\<close> after that single write, with no retry.
\<close>

theorem saveModel_quota_retry:
  "fst (saveModel ts mso ls) \<noteq> Inl e \<and>
   (truthy ms \<and> next_outcome ls = Some QuotaExceededError \<longrightarrow>
      writes (snd (saveModel ts (Some ms) ls)) =
        writes ls @ [SetItem storageKey (JSON_stringify (dataToSave (fst ts) ms)),
                     RemoveItem storageKey,
                     SetItem storageKey (JSON_stringify (dataToSave (snd ts) ms))] \<and>
      fst (saveModel ts (Some ms) ls) = Inr (second_outcome ls = None) \<and>
      items (snd (saveModel ts (Some ms) ls)) storageKey =
        (if second_outcome ls = None then Some (JSON_stringify (dataToSave (snd ts) ms))
         else None)) \<and>
   (truthy ms \<and> next_outcome ls = None \<longrightarrow>
      fst (saveModel ts (Some ms) ls) = Inr True \<and>
      writes (snd (saveModel ts (Some ms) ls)) =
        writes ls @ [SetItem storageKey (JSON_stringify (dataToSave (fst ts) ms))]) \<and>
   (truthy ms \<and> next_outcome ls = Some e' \<and> e' \<noteq> QuotaExceededError \<longrightarrow>
      fst (saveModel ts (Some ms) ls) = Inr False \<and>
      writes (snd (saveModel ts (Some ms) ls)) =
        writes ls @ [SetItem storageKey (JSON_stringify (dataToSave (fst ts) ms))])"
  using saveModel_no_exn [of ts mso ls e] saveModel_quota [of ms ls ts]
    saveModel_first [of ms ls ts] saveModel_other [of ms ls e' ts]
  by blast

text \<open>The theorem at a storage whose retry stores, and at one whose retry fails too.\<close>

theorem saveModel_quota_retry_witness:
  "fst (saveModel (1000, 1001) (Some (JObj [(''weights'', JArr [])]))
          (empty_storage\<lparr>script := [Some QuotaExceededError, None]\<rparr>)) = Inr True \<and>
   writes (snd (saveModel (1000, 1001) (Some (JObj [(''weights'', JArr [])]))
          (empty_storage\<lparr>script := [Some QuotaExceededError, None]\<rparr>))) =
     [SetItem storageKey (JSON_stringify (dataToSave 1000 (JObj [(''weights'', JArr [])]))),
      RemoveItem storageKey,
      SetItem storageKey (JSON_stringify (dataToSave 1001 (JObj [(''weights'', JArr [])])))] \<and>
   fst (saveModel (1000, 1001) (Some (JObj [(''weights'', JArr [])])) full_storage) = Inr False \<and>
   items (snd (saveModel (1000, 1001) (Some (JObj [(''weights'', JArr [])])) full_storage))
     storageKey = None"
  using saveModel_quota_retry
    [where ts = "(1000, 1001)" and ms = "JObj [(''weights'', JArr [])]"
       and ls = "empty_storage\<lparr>script := [Some QuotaExceededError, None]\<rparr>"]
    saveModel_quota_retry
    [where ts = "(1000, 1001)" and ms = "JObj [(''weights'', JArr [])]"
       and ls = full_storage]
  by (simp add: empty_storage_def full_storage_def next_outcome_def second_outcome_def)

section \<open>The persistence round trip\<close>




text \<open>A training pass that runs leaves a model behind, whatever \<open>fit\<close> does.\<close>

lemma train_completed_model:
  "batchSize \<le> length (trainingData mm) \<Longrightarrow> \<not> isTraining mm \<Longrightarrow>
   model (train tf batchSize mm) \<noteq> None"
  by (auto simp: train_def createModel_def Let_def split: option.splits sum.splits)

lemma add_samples:
  "list_all (\<lambda>v. length v = 3) vs \<Longrightarrow>
   add_all vs st mm =
     (if vs = [] then mm
      else mm\<lparr>trainingData := trainingData mm @ vs, featureStats := Some (stats_json st)\<rparr>)"
  unfolding add_all_def
  by (induction vs arbitrary: mm) (auto simp: addTrainingSample_def)

lemma sample_manager_eq:
  "sample_manager =
     \<lparr>model = Some (map (\<lambda>w. (fst w, map (\<lambda>b. b + 1 / 10) (snd w))) sample_weights),
      isTraining = False,
      trainingData = replicate 10 sample_vector,
      featureStats = Some (stats_json \<lparr>st_maxKeyCode = 255, st_maxTimeInterval = 1000\<rparr>)\<rparr>"
  by (simp add: sample_manager_def add_samples sample_vector_def list_all_length
      train_def createModel_def ModelManager_new_def sample_tf_def Let_def)




section \<open>Properties of the ModelManager\<close>

subsection \<open>Finite inputs give finite scores\<close>










subsection \<open>Shapes\<close>




lemma those_numbers: "those_list (map (as_number \<circ> JNum) xs) = Some xs"
  by (induction xs) simp_all

lemma those_rows:
  "list_all (\<lambda>row. length row = n) k \<Longrightarrow>
   those_list (map (as_vector n \<circ> (\<lambda>row. JArr (map JNum row))) k) = Some k"
  by (induction k) (simp_all add: those_numbers)

lemma setWeights_json:
  "list_all2 layer_shaped specs ws \<Longrightarrow> setWeights specs (weights_json ws) = Some ws"
proof (induction specs arbitrary: ws)
  case Nil
  then show ?case by (simp add: weights_json_def)
next
  case (Cons spec specs)
  then obtain w ws' where ws: "ws = w # ws'" and w: "layer_shaped spec w"
    and rest: "list_all2 layer_shaped specs ws'"
    by (auto simp: list_all2_Cons1)
  from Cons.IH [OF rest] have "setWeights specs (weights_json ws') = Some ws'" .
  with w ws show ?case
    by (cases w) (simp add: weights_json_def layer_shaped_def those_rows those_numbers)
qed

text \<open>Exported weights of the network's shapes are read back as they were.\<close>

lemma export_import_weights:
  "well_shaped ws \<Longrightarrow> setWeights architecture (weights_json ws) = Some ws"
  by (simp add: well_shaped_def setWeights_json)

lemma those_list_all2: "those_list os = Some ys \<Longrightarrow> list_all2 (\<lambda>x y. x = Some y) os ys"
  by (induction os arbitrary: ys rule: those_list.induct) (auto split: option.splits)

lemma as_vector_length: "as_vector n j = Some v \<Longrightarrow> length v = n"
  by (cases j) (auto split: if_splits dest!: those_list_all2 list_all2_lengthD)

lemma as_matrix_shape:
  assumes "as_matrix m n j = Some k"
  shows "length k = m \<and> list_all (\<lambda>row. length row = n) k"
proof -
  from assms obtain rows where j: "j = JArr rows" and len: "length rows = m"
    and th: "those_list (map (as_vector n) rows) = Some k"
    by (cases j) (auto split: if_splits)
  from those_list_all2 [OF th] have a2: "list_all2 (\<lambda>x y. x = Some y) (map (as_vector n) rows) k" .
  then have "length k = length rows" by (auto dest: list_all2_lengthD)
  moreover have "list_all (\<lambda>row. length row = n) k"
    using a2 by (auto simp: list_all_length list_all2_conv_all_nth intro: as_vector_length)
  ultimately show ?thesis using len by simp
qed

lemma setWeights_shaped:
  "setWeights specs js = Some ws \<Longrightarrow> list_all2 layer_shaped specs ws"
  by (induction specs js arbitrary: ws rule: setWeights.induct)
     (auto simp: layer_shaped_def split: option.splits dest: as_matrix_shape as_vector_length)

text \<open>Weights that \<open>setWeights\<close> accepts have the network's shapes.\<close>

lemma setWeights_well_shaped: "setWeights architecture js = Some ws \<Longrightarrow> well_shaped ws"
  by (simp add: well_shaped_def setWeights_shaped)

subsection \<open>Training with too few samples\<close>

text \<open>
  Claim C4. A call of \<open>train\<close> with fewer accumulated samples than the batch size
  returns the manager as it was: model (or its absence), weights, samples, statistics
  and the training flag. The hook's training call made on such a manager leaves the
  manager and the storage untouched, so nothing is written.
\<close>

theorem train_insufficient_noop:
  assumes "length (trainingData mm) < batchSize"
  shows "train tf batchSize mm = mm \<and>
         (modelManager h = mm \<and> batchSize = BATCH_TRAINING_SIZE \<longrightarrow>
            modelManager (trainStep tf h) = modelManager h \<and>
            storage (trainStep tf h) = storage h)"
  using assms by (simp add: train_def trainStep_def)

text \<open>The theorem at a manager with nine samples and the batch size ten.\<close>

theorem train_insufficient_noop_witness:
  "train sample_tf 10 (add_all (replicate 9 sample_vector)
       \<lparr>st_maxKeyCode = 255, st_maxTimeInterval = 1000\<rparr> ModelManager_new)
   = add_all (replicate 9 sample_vector)
       \<lparr>st_maxKeyCode = 255, st_maxTimeInterval = 1000\<rparr> ModelManager_new \<and>
   length (trainingData (add_all (replicate 9 sample_vector)
       \<lparr>st_maxKeyCode = 255, st_maxTimeInterval = 1000\<rparr> ModelManager_new)) = 9"
proof -
  have n: "length (trainingData (add_all (replicate 9 sample_vector)
       \<lparr>st_maxKeyCode = 255, st_maxTimeInterval = 1000\<rparr> ModelManager_new)) = 9"
    by (simp add: add_samples sample_vector_def list_all_length ModelManager_new_def)
  then have "length (trainingData (add_all (replicate 9 sample_vector)
       \<lparr>st_maxKeyCode = 255, st_maxTimeInterval = 1000\<rparr> ModelManager_new)) < 10"
    by simp
  from train_insufficient_noop [OF this, of sample_tf] n show ?thesis by simp
qed

subsection \<open>The anomaly score\<close>



subsection \<open>A restored manager\<close>

lemma loadModelState_success:
  assumes "loadModelState tf mso mm = (True, mm')"
  shows "\<exists>st ws. mso = Some st \<and> stored_weights st = Some ws \<and>
           mm' = mm\<lparr>model := Some ws,
                    featureStats := (case getProp st ''featureStats'' of
                                       Inr fs \<Rightarrow> fs | Inl e \<Rightarrow> None)\<rparr>"
  using assms
  by (auto simp: loadModelState_def stored_weights_def createModel_def Let_def
      split: option.splits if_splits sum.splits json.splits)

text \<open>
  Claim C10. When \<open>loadModelState\<close> succeeds on a manager without samples (as a
  new manager is), the manager has the stored weights as its model and the stored
  feature statistics, its sample list is still empty, and \<open>isReady\<close> is false.
  After further samples of length three are added, \<open>isReady\<close> holds exactly when
  at least ten were added. Meanwhile \<open>predict\<close> already scores with the restored
  weights.
\<close>

theorem restored_not_ready:
  assumes "loadModelState tf (Some st) mm = (True, mm')" and "trainingData mm = []"
  shows "\<not> isReady mm' \<and> trainingData mm' = [] \<and>
         model mm' = stored_weights st \<and> model mm' \<noteq> None \<and>
         Inr (featureStats mm') = getProp st ''featureStats'' \<and>
         (list_all (\<lambda>v. length v = 3) vs \<longrightarrow>
            isReady (add_all vs stats mm') = (10 \<le> length vs)) \<and>
         (length nf = 3 \<longrightarrow>
            predict mm' (Some nf) =
              js_min (js_mul (meanSquaredError nf (model_predict (the (stored_weights st)) nf))
                        (Num 10)) (Num 1))"
proof -
  from loadModelState_success [OF assms(1)] obtain ws where
    ws: "stored_weights st = Some ws" and
    mm': "mm' = mm\<lparr>model := Some ws,
                   featureStats := (case getProp st ''featureStats'' of
                                      Inr fs \<Rightarrow> fs | Inl e \<Rightarrow> None)\<rparr>"
    by auto
  have tr: "truthy st" using assms(1) by (auto simp: loadModelState_def split: if_splits)
  then have fs: "getProp st ''featureStats'' \<noteq> Inl e" for e by (cases st) simp_all
  have ready: "isReady (add_all vs stats mm') = (10 \<le> length vs)"
    if "list_all (\<lambda>v. length v = 3) vs"
    using that assms(2) by (simp add: add_samples mm' isReady_def)
  from ws mm' assms(2) fs ready show ?thesis
    by (auto simp: isReady_def predict_def split: sum.splits)
qed

lemma sample_state_loads:
  "fst (loadModelState sample_tf (getModelState sample_manager) ModelManager_new)"
  by (simp add: sample_manager_eq getModelState_def loadModelState_def createModel_def
      sample_weights_def weights_json_def architecture_def Let_def)

text \<open>
  The theorem at the state of the trained manager, loaded into a new manager: not ready
  at once, not ready after nine more samples, ready after ten.
\<close>

theorem restored_not_ready_witness:
  "fst (loadModelState sample_tf (getModelState sample_manager) ModelManager_new) \<and>
   \<not> isReady (snd (loadModelState sample_tf (getModelState sample_manager) ModelManager_new)) \<and>
   \<not> isReady (add_all (replicate 9 sample_vector) \<lparr>st_maxKeyCode = 255, st_maxTimeInterval = 1000\<rparr>
       (snd (loadModelState sample_tf (getModelState sample_manager) ModelManager_new))) \<and>
   isReady (add_all (replicate 10 sample_vector) \<lparr>st_maxKeyCode = 255, st_maxTimeInterval = 1000\<rparr>
       (snd (loadModelState sample_tf (getModelState sample_manager) ModelManager_new)))"
proof -
  obtain st where st: "getModelState sample_manager = Some st"
    by (auto simp: sample_manager_eq getModelState_def)
  have l: "loadModelState sample_tf (Some st) ModelManager_new =
             (True, snd (loadModelState sample_tf (Some st) ModelManager_new))"
    using sample_state_loads st by (simp add: prod_eq_iff)
  have e: "trainingData ModelManager_new = []" by (simp add: ModelManager_new_def)
  from restored_not_ready [OF l e, where vs = "replicate 9 sample_vector"]
    restored_not_ready [OF l e, where vs = "replicate 10 sample_vector"]
    sample_state_loads st
  show ?thesis by (simp add: sample_vector_def list_all_length)
qed

section \<open>Properties of the controller\<close>

lemma extract_some:
  "lastKey fx = Some lk \<Longrightarrow> lastKeyTime fx = Some lt \<Longrightarrow>
   \<exists>f fx'. extractFeatures ev now fx = (Some f, fx') \<and> prevKey f = lk \<and>
     nextKey f = currentKey ev \<and> timeInterval f = now - lt \<and>
     lastKey fx' = Some (currentKey ev) \<and> lastKeyTime fx' = Some now"
  by (simp add: extractFeatures_def Let_def)

lemma normalize_some:
  "\<exists>nf. normalizeFeatures fx (Some f) = Some nf \<and> length nf = 3"
  by (simp add: normalizeFeatures_def)

lemma train_runs:
  "batchSize \<le> length (trainingData mm) \<Longrightarrow> \<not> isTraining mm \<Longrightarrow>
   model (train tf batchSize mm) \<noteq> None \<and> \<not> isTraining (train tf batchSize mm) \<and>
   trainingData (train tf batchSize mm) = trainingData mm \<and>
   featureStats (train tf batchSize mm) = featureStats mm"
  by (auto simp: train_def createModel_def Let_def split: option.splits sum.splits)

lemma collecting_step:
  assumes "collecting n h"
  shows "collecting (Suc n) (keystroke tf ev now h) \<and>
         trainingStartTime (keystroke tf ev now h) = trainingStartTime h \<and>
         storage (keystroke tf ev now h) = storage h"
proof -
  from assms obtain lk lt where lk: "lastKey (featureExtractor h) = Some lk"
    and lt: "lastKeyTime (featureExtractor h) = Some lt"
    by (auto simp: collecting_def)
  from extract_some [OF lk lt, of ev now] obtain f fx' where
    ex: "extractFeatures ev now (featureExtractor h) = (Some f, fx')"
    and fx': "lastKey fx' = Some (currentKey ev)" "lastKeyTime fx' = Some now"
    by blast
  obtain nf where nf: "normalizeFeatures fx' (Some f) = Some nf" "length nf = 3"
    using normalize_some by blast
  define mm1 where "mm1 = addTrainingSample (Some nf) (getStats fx') (modelManager h)"
  have mm1: "trainingData mm1 = trainingData (modelManager h) @ [nf]"
    "isTraining mm1 = isTraining (modelManager h)" "model mm1 = model (modelManager h)"
    using nf by (simp_all add: mm1_def addTrainingSample_def)
  have ph: "phase h = Training" using assms by (simp add: collecting_def)
  show ?thesis
  proof (cases "n mod 10 = 9")
    case True
    then have d: "Suc n div 10 = Suc (n div 10)" "Suc n mod 10 = 0" "10 \<le> Suc n"
      using mod_less_eq_dividend [of n 10] by (simp_all add: mod_Suc div_Suc)
    have tr: "10 \<le> length (trainingData mm1)" "\<not> isTraining mm1"
      using assms mm1 d by (simp_all add: collecting_def)
    from train_runs [OF tr, of tf] assms mm1 d True ph ex nf fx'
    show ?thesis
      by (simp add: collecting_def keystroke_def handleKeystroke_def Let_def trainStep_def
          BATCH_TRAINING_SIZE_def mm1_def [symmetric] replicate_append_same)
  next
    case False
    then have d: "Suc n div 10 = n div 10" "Suc n mod 10 = Suc (n mod 10)" "Suc (n mod 10) < 10"
      by (simp_all add: mod_Suc div_Suc)
    have "(Suc n < 10) = (n < 10)" using False by (cases "n < 10") auto
    with assms mm1 d False ph ex nf fx' show ?thesis
      by (simp add: collecting_def keystroke_def handleKeystroke_def Let_def
          BATCH_TRAINING_SIZE_def mm1_def [symmetric])
  qed
qed

lemma collecting_run:
  "collecting n h \<Longrightarrow>
   collecting (n + length es) (keystrokes tf es h) \<and>
   trainingStartTime (keystrokes tf es h) = trainingStartTime h \<and>
   storage (keystrokes tf es h) = storage h"
proof (induction es arbitrary: n h)
  case Nil
  then show ?case by simp
next
  case (Cons e es)
  from collecting_step [OF Cons.prems, of tf "fst e" "snd e"]
  have s: "collecting (Suc n) (keystroke tf (fst e) (snd e) h)"
    "trainingStartTime (keystroke tf (fst e) (snd e) h) = trainingStartTime h"
    "storage (keystroke tf (fst e) (snd e) h) = storage h"
    by simp_all
  from Cons.IH [OF s(1)] s(2,3) show ?case by simp
qed


lemma scenario_two:
  "scenario tf ev t0 2 =
     (useTypingBehavior empty_storage)\<lparr>featureExtractor :=
        FeatureExtractor_new\<lparr>lastKey := Some (currentKey (ev 1)), lastKeyTime := Some (t0 + 50)\<rparr>,
        phase := Training, trainingStartTime := Some (t0 + 50), timerRef := Ticking\<rparr>"
  by (simp add: scenario_def numeral_2_eq_2 keystroke_def handleKeystroke_def useTypingBehavior_def
      extractFeatures_def FeatureExtractor_new_def Let_def)

lemma keystrokes_append:
  "keystrokes tf (es @ es') h = keystrokes tf es' (keystrokes tf es h)"
  by (induction es arbitrary: h) simp_all

lemma scenario_split:
  "scenario tf ev t0 (2 + n) =
     keystrokes tf (map (\<lambda>i. (ev i, t0 + 50 * real i)) [2..<2 + n]) (scenario tf ev t0 2)"
proof -
  have "[0..<2 + n] = [0..<2] @ [2..<2 + n]"
    by (metis upt_add_eq_append zero_le)
  then show ?thesis by (simp add: scenario_def keystrokes_append del: upt_Suc)
qed

lemma scenario_collecting:
  "collecting n (scenario tf ev t0 (2 + n)) \<and>
   trainingStartTime (scenario tf ev t0 (2 + n)) = Some (t0 + 50) \<and>
   storage (scenario tf ev t0 (2 + n)) = empty_storage"
proof -
  define es where "es = map (\<lambda>i. (ev i, t0 + 50 * real i)) [2..<2 + n]"
  have len: "length es = n" by (simp add: es_def del: upt_Suc)
  have sp: "scenario tf ev t0 (2 + n) = keystrokes tf es (scenario tf ev t0 2)"
    unfolding es_def by (rule scenario_split)
  have c0: "collecting 0 (scenario tf ev t0 2)"
    by (simp add: scenario_two collecting_def useTypingBehavior_def ModelManager_new_def)
  have st: "trainingStartTime (scenario tf ev t0 2) = Some (t0 + 50)"
    "storage (scenario tf ev t0 2) = empty_storage"
    by (simp_all add: scenario_two useTypingBehavior_def)
  from collecting_run [OF c0, of es tf] len st show ?thesis
    unfolding sp by simp
qed

text \<open>
  A firing of the interval before the training duration has passed changes nothing but
  the displayed remaining time, which no handler reads; so the firings that fall between
  the key events of the scenario are left out of it.
\<close>

lemma timerTick_early:
  assumes "timerRef h = Ticking" and "trainingStartTime h = Some t0"
    and "now - t0 < TRAINING_DURATION"
  shows "timerTick tf now ts h =
           h\<lparr>timeRemaining := \<lceil>(TRAINING_DURATION - (now - t0)) / 1000\<rceil>\<rparr>"
  using assms by (simp add: timerTick_def Let_def max_def)




text \<open>
  Claim C9, amended. When the interval fires with the training duration elapsed, the
  controller stops the interval, switches to \<open>predicting\<close> and calls \<open>train\<close>;
  after that call it reads the model state, and only if there is one does it call
  \<open>saveModel\<close>, with the state of the manager after the training call. So a save
  is never attempted before the final training call has completed, and none is
  attempted when no model exists.
\<close>

theorem timer_expiry_order:
  assumes "timerRef h = Ticking" and "trainingStartTime h = Some t0"
    and "TRAINING_DURATION \<le> now - t0"
  shows "phase (timerTick tf now ts h) = Predicting \<and>
    timerRef (timerTick tf now ts h) = Cleared \<and>
    timeRemaining (timerTick tf now ts h) = 0 \<and>
    modelManager (timerTick tf now ts h) = train tf BATCH_TRAINING_SIZE (modelManager h) \<and>
    calls (timerTick tf now ts h) =
      calls h @ TrainCalled BATCH_TRAINING_SIZE #
        (case getModelState (train tf BATCH_TRAINING_SIZE (modelManager h)) of
           None \<Rightarrow> []
         | Some state \<Rightarrow> [SaveCalled state]) \<and>
    storage (timerTick tf now ts h) =
      (case getModelState (train tf BATCH_TRAINING_SIZE (modelManager h)) of
         None \<Rightarrow> storage h
       | Some state \<Rightarrow> snd (saveModel ts (Some state) (storage h)))"
proof -
  have tr: "truthy state" if "getModelState mm = Some state" for mm state
    using that by (auto simp: getModelState_def split: option.splits)
  from assms(3) have r: "max 0 (TRAINING_DURATION - (now - t0)) = 0" by simp
  show ?thesis
    using assms(1,2) r
    by (auto simp: timerTick_def Let_def trainStep_def saveStep_def tr split: option.splits)
qed

text \<open>
  Claim C9, as stated, fails when no model exists at expiry: after two key events (one
  feature, not collected) the countdown runs out; the controller switches to
  \<open>predicting\<close> and calls \<open>train\<close>, but no save is attempted and nothing is
  written.
\<close>

theorem timer_expiry_counterexample:
  "phase (timerTick sample_tf 90050 (90051, 90052) (scenario sample_tf sample_key 0 2)) = Predicting \<and>
   calls (timerTick sample_tf 90050 (90051, 90052) (scenario sample_tf sample_key 0 2)) =
     [TrainCalled 10] \<and>
   writes (storage (timerTick sample_tf 90050 (90051, 90052) (scenario sample_tf sample_key 0 2))) = []"
  by (simp add: scenario_two timerTick_def Let_def trainStep_def train_def getModelState_def
      useTypingBehavior_def ModelManager_new_def empty_storage_def TRAINING_DURATION_def
      BATCH_TRAINING_SIZE_def)

text \<open>
  The theorem after the twelve events of the scenario: the batch call of the twelfth
  event, the final training call, then the save of the state after it.
\<close>

theorem timer_expiry_order_witness:
  "phase (timerTick sample_tf 90050 (90051, 90052) (scenario sample_tf sample_key 0 12)) = Predicting \<and>
   calls (timerTick sample_tf 90050 (90051, 90052) (scenario sample_tf sample_key 0 12)) =
     [TrainCalled 10, TrainCalled 10,
      SaveCalled (the (getModelState (modelManager
        (timerTick sample_tf 90050 (90051, 90052) (scenario sample_tf sample_key 0 12)))))] \<and>
   items (storage (timerTick sample_tf 90050 (90051, 90052) (scenario sample_tf sample_key 0 12)))
     storageKey =
     Some (Serialized (dataToSave 90051 (the (getModelState (modelManager
        (timerTick sample_tf 90050 (90051, 90052) (scenario sample_tf sample_key 0 12)))))))"
proof -
  define h where "h = scenario sample_tf sample_key 0 12"
  have c: "collecting 10 h" "trainingStartTime h = Some 50" "storage h = empty_storage"
    using scenario_collecting [of 10 sample_tf sample_key 0] by (simp_all add: h_def)
  then have t: "timerRef h = Ticking" by (simp add: collecting_def)
  have d: "TRAINING_DURATION \<le> 90050 - 50" by (simp add: TRAINING_DURATION_def)
  have "10 \<le> length (trainingData (modelManager h))" "\<not> isTraining (modelManager h)"
    using c(1) by (simp_all add: collecting_def)
  from train_runs [OF this, of sample_tf]
  obtain ws where ws: "model (train sample_tf 10 (modelManager h)) = Some ws" by auto
  then obtain state where st: "getModelState (train sample_tf 10 (modelManager h)) = Some state"
    and tr: "truthy state"
    by (auto simp: getModelState_def)
  from timer_expiry_order [OF t c(2) d, of sample_tf "(90051, 90052)"] st tr c
  show ?thesis
    unfolding h_def [symmetric]
    by (simp add: collecting_def BATCH_TRAINING_SIZE_def saveModel_def setItem_def
        next_outcome_def empty_storage_def JSON_stringify_def Let_def)
qed

end
